theory Spec2Isabelle
  imports Main
begin

section \<open>Python strings\<close>

text \<open>
  A Python \<open>str\<close> is a sequence of Unicode code points, so it is modelled as a list of
  natural numbers (the code points); \<open>length\<close> then counts what Python's \<open>len\<close> counts.
  The ASCII literals of the source are written with \<open>ascii\<close>; the few non-ASCII characters
  of the source's literals are given by their code point.
\<close>

type_synonym ustr = "nat list"

definition ascii :: "string \<Rightarrow> ustr" where
  "ascii s = map of_char s"

text \<open>
  \<open>str.isspace\<close> on one character, which is also what \<open>str.strip()\<close> removes and what
  \<open>\s\<close> matches in a \<open>str\<close> pattern of \<open>re\<close>: tab to carriage return, the four
  separators FS, GS, RS, US, the space, NEL, the no-break space and the Unicode spaces.
\<close>

definition isspace :: "nat \<Rightarrow> bool" where
  "isspace c \<longleftrightarrow>
     (9 \<le> c \<and> c \<le> 13) \<or> (28 \<le> c \<and> c \<le> 32) \<or> c = 133 \<or> c = 160 \<or> c = 5760 \<or>
     (8192 \<le> c \<and> c \<le> 8202) \<or> c = 8232 \<or> c = 8233 \<or> c = 8239 \<or> c = 8287 \<or> c = 12288"

text \<open>\<open>s.strip()\<close>: whitespace removed from both ends.\<close>

definition strip :: "ustr \<Rightarrow> ustr" where
  "strip s = rev (dropWhile isspace (rev (dropWhile isspace s)))"

text \<open>\<open>sep.join(xs)\<close>.\<close>

fun join :: "ustr \<Rightarrow> ustr list \<Rightarrow> ustr" where
  "join sep [] = []"
| "join sep [x] = x"
| "join sep (x # y # ys) = x @ sep @ join sep (y # ys)"

text \<open>
  The decimal rendering of an integer, as \<open>f"{i}"\<close> and \<open>str(i)\<close> give it: the digits of
  the absolute value, most significant first, after a minus sign when negative.
\<close>

fun digits :: "nat \<Rightarrow> ustr" where
  "digits n = (if n < 10 then [48 + n] else digits (n div 10) @ [48 + n mod 10])"

declare digits.simps [simp del]

definition str_int :: "int \<Rightarrow> ustr" where
  "str_int i = (if i < 0 then 45 # digits (nat (- i)) else digits (nat i))"

section \<open>Repository name resolution\<close>

text \<open>\<open>REPO_NAME_PREFIX\<close>.\<close>

definition REPO_NAME_PREFIX :: ustr where
  "REPO_NAME_PREFIX = ascii ''portfolio-builder''"

text \<open>The candidate \<open>f"{prefix}-{i}"\<close>.\<close>

definition suffixed :: "ustr \<Rightarrow> int \<Rightarrow> ustr" where
  "suffixed prefix i = prefix @ ascii ''-'' @ str_int i"

text \<open>
  The loop \<open>for i in range(2, 100)\<close> of \<open>_unique_repo_name\<close>, over the values of \<open>i\<close> still
  to come: it returns the current candidate when it is free, and otherwise replaces it by
  the candidate numbered \<open>i\<close> and goes on. When the range is exhausted the loop has
  returned nothing (\<open>None\<close>); the candidate assigned in the last iteration is not tested.
\<close>

fun probe :: "ustr set \<Rightarrow> ustr \<Rightarrow> ustr \<Rightarrow> int list \<Rightarrow> ustr option" where
  "probe existing_names prefix candidate [] = None"
| "probe existing_names prefix candidate (i # rest) =
     (if candidate \<notin> existing_names then Some candidate
      else probe existing_names prefix (suffixed prefix i) rest)"

text \<open>
  The body of \<open>_unique_repo_name\<close> once the set of existing names is built; \<open>now\<close> is
  \<open>int(time.time())\<close>, read when the loop has found nothing.
\<close>

definition unique_repo_name_in :: "ustr set \<Rightarrow> ustr \<Rightarrow> int \<Rightarrow> ustr" where
  "unique_repo_name_in existing_names prefix now =
     (case probe existing_names prefix prefix [2..99] of
        Some candidate \<Rightarrow> candidate
      | None \<Rightarrow> suffixed prefix now)"

section \<open>Fence stripping\<close>

text \<open>The class \<open>[a-zA-Z]\<close> of the pattern.\<close>

definition is_ascii_letter :: "nat \<Rightarrow> bool" where
  "is_ascii_letter c \<longleftrightarrow> (65 \<le> c \<and> c \<le> 90) \<or> (97 \<le> c \<and> c \<le> 122)"

text \<open>Three backticks.\<close>

definition fence :: ustr where
  "fence = [96, 96, 96]"

text \<open>
  The pattern of \<open>_strip_markdown_fences\<close> is
  \<^verbatim>\<open>^```[a-zA-Z]*\n([\s\S]*?)```\s*$\<close>, matched by \<open>re.match\<close> (anchored at the start, no
  flags) with a backtracking matcher. Each piece of the pattern is a function on the text
  that is left.

  \<open>$\<close> without \<open>re.MULTILINE\<close> matches at the end of the string and just before a newline
  that ends the string.
\<close>

definition at_end :: "ustr \<Rightarrow> bool" where
  "at_end rest \<longleftrightarrow> rest = [] \<or> rest = [10]"

text \<open>
  \<open>\s*$\<close>: the greedy star takes a whitespace character and goes on; where that fails, or
  at a character that is no whitespace, \<open>$\<close> is tried at the current position.
\<close>

fun spaces_then_end :: "ustr \<Rightarrow> bool" where
  "spaces_then_end [] = at_end []"
| "spaces_then_end (c # cs) = ((isspace c \<and> spaces_then_end cs) \<or> at_end (c # cs))"

text \<open>
  \<^verbatim>\<open>([\s\S]*?)```\s*$\<close>: the lazy star first tries to close the block at the current
  position, and only when that fails takes one more character (any character) into the
  group. \<open>grp\<close> is the group matched so far.
\<close>

fun body_then_close :: "ustr \<Rightarrow> ustr \<Rightarrow> ustr option" where
  "body_then_close grp [] = None"
| "body_then_close grp (c # cs) =
     (if take 3 (c # cs) = fence \<and> spaces_then_end (drop 3 (c # cs)) then Some grp
      else body_then_close (grp @ [c]) cs)"

text \<open>
  \<^verbatim>\<open>[a-zA-Z]*\n(...)\<close>: the greedy star takes a letter and goes on; where that fails,
  or at a character that is no letter, the newline is expected at the current position.
\<close>

fun tag_then_body :: "ustr \<Rightarrow> ustr option" where
  "tag_then_body [] = None"
| "tag_then_body (c # cs) =
     (case (if is_ascii_letter c then tag_then_body cs else None) of
        Some grp \<Rightarrow> Some grp
      | None \<Rightarrow> if c = 10 then body_then_close [] cs else None)"

text \<open>\<open>re.match(pattern, s)\<close>, giving \<open>match.group(1)\<close> when there is a match.\<close>

definition re_match_fences :: "ustr \<Rightarrow> ustr option" where
  "re_match_fences s = (if take 3 s = fence then tag_then_body (drop 3 s) else None)"

definition strip_markdown_fences :: "ustr \<Rightarrow> ustr" where
  "strip_markdown_fences text =
     (case re_match_fences (strip text) of Some grp \<Rightarrow> grp | None \<Rightarrow> text)"

text \<open>
  The specification's reading of a wrapper, for comparison with the pattern: a string is
  \<^emph>\<open>entirely wrapped in one fenced block\<close> when it opens with a fence, an optional
  language tag of letters and a newline, and its last three characters are a fence that
  does not overlap the opening line. \<open>fenced_block\<close> gives the tag and the inner content
  of such a string.
\<close>

definition fenced_block :: "ustr \<Rightarrow> (ustr \<times> ustr) option" where
  "fenced_block s =
     (let tag = takeWhile is_ascii_letter (drop 3 s);
          rest = dropWhile is_ascii_letter (drop 3 s);
          body = drop 1 rest
      in if take 3 s = fence \<and> take 1 rest = [10] \<and> 3 \<le> length body \<and>
            drop (length body - 3) body = fence
         then Some (tag, take (length body - 3) body)
         else None)"

section \<open>Exceptions\<close>

text \<open>
  The exceptions that reach a caller of the two public functions. The three built-in
  classes the source raises carry their message and the exception they were raised
  \<open>from\<close>. A \<open>GithubException\<close> of PyGithub carries its \<open>status\<close>, the text of its \<open>data\<close>
  as an f-string renders it, and its own \<open>str()\<close>. \<open>OtherException\<close> is any other subclass
  of \<open>Exception\<close> that a library call raises (a connection error, say), with its \<open>str()\<close>.
\<close>

datatype exn =
    ValueError ustr "exn option"
  | PermissionError ustr "exn option"
  | RuntimeError ustr "exn option"
  | GithubException int ustr ustr
  | OtherException ustr

text \<open>\<open>str(exc)\<close>, as \<open>f"{exc}"\<close> renders it.\<close>

fun exn_str :: "exn \<Rightarrow> ustr" where
  "exn_str (ValueError msg cause) = msg"
| "exn_str (PermissionError msg cause) = msg"
| "exn_str (RuntimeError msg cause) = msg"
| "exn_str (GithubException status data msg) = msg"
| "exn_str (OtherException msg) = msg"

section \<open>Prompt construction\<close>

text \<open>\<open>d.get(key, default)\<close>.\<close>

definition dict_get :: "(ustr \<rightharpoonup> ustr) \<Rightarrow> ustr \<Rightarrow> ustr \<Rightarrow> ustr" where
  "dict_get d key dflt = (case d key of Some v \<Rightarrow> v | None \<Rightarrow> dflt)"

text \<open>
  The line boundaries of \<open>str.splitlines()\<close>: LF, VT, FF, CR, FS, GS, RS, NEL, LS and PS.
\<close>

definition islinebreak :: "nat \<Rightarrow> bool" where
  "islinebreak c \<longleftrightarrow>
     (10 \<le> c \<and> c \<le> 13) \<or> (28 \<le> c \<and> c \<le> 30) \<or> c = 133 \<or> c = 8232 \<or> c = 8233"

text \<open>
  \<open>s.splitlines()\<close>, scanning with the line read so far: a boundary ends the line (CR LF
  counts as one boundary), and what is left at the end is a line only if it is not empty.
\<close>

fun splitlines_from :: "ustr \<Rightarrow> ustr \<Rightarrow> ustr list" where
  "splitlines_from cur [] = (if cur = [] then [] else [cur])"
| "splitlines_from cur (c # cs) =
     (if islinebreak c then
        cur # (case cs of
                 [] \<Rightarrow> splitlines_from [] cs
               | d # ds \<Rightarrow> if c = 13 \<and> d = 10 then splitlines_from [] ds
                           else splitlines_from [] cs)
      else splitlines_from (cur @ [c]) cs)"

definition splitlines :: "ustr \<Rightarrow> ustr list" where
  "splitlines s = splitlines_from [] s"

definition GEMINI_MODEL :: ustr where
  "GEMINI_MODEL = ascii ''gemini-2.0-flash''"

definition MAX_OUTPUT_TOKENS :: nat where
  "MAX_OUTPUT_TOKENS = 8192"

definition system_prompt :: ustr where
  "system_prompt = concat
     [ascii ''You are an expert front-end developer who writes stunning, award-winning '',
      ascii ''portfolio websites. You output ONLY raw, valid HTML '', [8212],
      ascii '' no markdown fences, '',
      ascii ''no explanatory text, no preamble. The HTML must be entirely self-contained '',
      ascii ''(all CSS and JS inline, no external stylesheets except Google Fonts CDN '',
      ascii ''and Tailwind CDN). The page must be mobile-responsive and accessible.'']"

text \<open>
  The local \<open>links_formatted\<close> of \<open>generate_portfolio\<close>: a bullet (U+2022) line for every
  line of the links field that is not empty once stripped, joined by newlines; \<open>or\<close> gives
  the marker when the joined string is empty.
\<close>

definition links_formatted :: "(ustr \<rightharpoonup> ustr) \<Rightarrow> ustr" where
  "links_formatted user_data =
     (let joined = join [10]
            (map (\<lambda>url. ascii ''  '' @ [8226] @ ascii '' '' @ strip url)
               (filter (\<lambda>url. strip url \<noteq> [])
                  (splitlines (dict_get user_data (ascii ''links'') []))))
      in if joined = [] then ascii ''  (none provided)'' else joined)"

text \<open>The f-string \<open>user_prompt\<close> of \<open>generate_portfolio\<close>, stripped as the source does.\<close>

definition user_prompt :: "(ustr \<rightharpoonup> ustr) \<Rightarrow> ustr" where
  "user_prompt user_data = strip (concat
     [[10],
      ascii ''Create a complete, single-file HTML portfolio website for the following person.'',
      [10], [10],
      ascii ''=== BIO ==='', [10],
      strip (dict_get user_data (ascii ''bio'') []), [10], [10],
      ascii ''=== LINKS ==='', [10],
      links_formatted user_data, [10], [10],
      ascii ''=== DESIGN PREFERENCES ==='', [10],
      ascii ''Color Theme  : '',
      dict_get user_data (ascii ''color_theme'') (ascii ''Dark & Minimal''), [10],
      ascii ''Layout Style : '',
      dict_get user_data (ascii ''layout_style'') (ascii ''Single Page''), [10],
      ascii ''Extra Notes  : '',
      (let notes = strip (dict_get user_data (ascii ''aesthetic_notes'') [])
       in if notes = [] then ascii ''(none)'' else notes), [10], [10],
      ascii ''=== REQUIREMENTS ==='', [10],
      ascii ''1. Use Tailwind CSS (CDN) for utility classes.'', [10],
      ascii ''2. Add tasteful CSS animations / transitions (scroll-reveal, hover effects).'', [10],
      ascii ''3. Include a hero section, about section, links/contact section.'', [10],
      ascii ''4. All images should be replaced with elegant SVG illustrations or CSS art '',
      [8212], [10],
      ascii ''   do not embed base64 blobs.'', [10],
      ascii ''5. Output ONLY the HTML '', [8212], ascii '' nothing else.'', [10]])"

text \<open>
  The defaults of the five profile fields, as the specification lists them, for comparison
  with the prompt the source builds.
\<close>

definition profile_defaults :: "ustr \<rightharpoonup> ustr" where
  "profile_defaults =
     [ascii ''bio'' \<mapsto> [],
      ascii ''links'' \<mapsto> [],
      ascii ''aesthetic_notes'' \<mapsto> [],
      ascii ''color_theme'' \<mapsto> ascii ''Dark & Minimal'',
      ascii ''layout_style'' \<mapsto> ascii ''Single Page'']"

section \<open>The generation call\<close>

text \<open>
  The response of \<open>model.generate_content\<close>: reading \<open>response.text\<close> gives the text or
  raises, and \<open>candidates\<close> holds the finish reason of each candidate as an f-string
  renders it.
\<close>

record response =
  response_text :: "exn + ustr"
  candidates :: "ustr list"

text \<open>
  The generation service, as far as the source sees it: the outcome of building the model
  (name, system instruction, output limit) and calling \<open>generate_content\<close> on a prompt.
  The sampling temperature is a fixed floating-point constant of the source and is left
  out of the model.
\<close>

record gemini =
  generate_content :: "ustr \<Rightarrow> ustr \<Rightarrow> nat \<Rightarrow> ustr \<Rightarrow> exn + response"

text \<open>The calls \<open>generate_portfolio\<close> makes into the SDK, in order.\<close>

datatype gemini_call =
    Configure ustr
  | GenerateContent ustr ustr nat ustr

definition generate_portfolio ::
  "gemini \<Rightarrow> ustr \<Rightarrow> (ustr \<rightharpoonup> ustr) \<Rightarrow> (exn + ustr) \<times> gemini_call list" where
  "generate_portfolio sdk api_key user_data =
     (if api_key = [] \<or> strip api_key = [] then
        (Inl (ValueError (ascii ''Gemini API key must not be empty.'') None), [])
      else
        let calls = [Configure (strip api_key),
                     GenerateContent GEMINI_MODEL system_prompt MAX_OUTPUT_TOKENS
                       (user_prompt user_data)]
        in case generate_content sdk GEMINI_MODEL system_prompt MAX_OUTPUT_TOKENS
                  (user_prompt user_data) of
             Inl exc \<Rightarrow>
               (Inl (RuntimeError
                  (ascii ''Gemini API call failed: '' @ exn_str exc @ [10] @
                   ascii ''Check your API key, quota, and network connection.'')
                  (Some exc)), calls)
           | Inr response \<Rightarrow>
               (case response_text response of
                  Inl exc \<Rightarrow>
                    (Inl (ValueError
                       (ascii ''Gemini returned no usable content. Finish reason: '' @
                        (case candidates response of
                           [] \<Rightarrow> ascii ''unknown''
                         | reason # _ \<Rightarrow> reason) @
                        ascii ''. Detail: '' @ exn_str exc)
                       (Some exc)), calls)
                | Inr raw_text \<Rightarrow>
                    (let html = strip_markdown_fences raw_text
                     in if strip html = [] then
                          (Inl (ValueError (ascii ''Gemini returned an empty HTML response.'')
                             None), calls)
                        else (Inr html, calls))))"

section \<open>Publishing\<close>

definition PAGES_BRANCH :: ustr where
  "PAGES_BRANCH = ascii ''main''"

text \<open>\<open>COMMIT_MESSAGE\<close>; it starts with U+1F680.\<close>

definition COMMIT_MESSAGE :: ustr where
  "COMMIT_MESSAGE = [128640] @ ascii '' Deploy portfolio via Portfolio Builder''"

text \<open>The description given to \<open>create_repo\<close>; it holds U+2728 and U+2014.\<close>

definition DESCRIPTION :: ustr where
  "DESCRIPTION = [10024] @ ascii '' Personal portfolio '' @ [8212] @
     ascii '' generated by Portfolio Builder''"

text \<open>The f-string \<open>f"https://{username}.github.io/{repo_name}/"\<close>.\<close>

definition pages_url_of :: "ustr \<Rightarrow> ustr \<Rightarrow> ustr" where
  "pages_url_of username repo_name =
     ascii ''https://'' @ username @ ascii ''.github.io/'' @ repo_name @ ascii ''/''"

text \<open>
  The hosting service, as far as the source sees it. Every operation either gives its
  result or raises (\<open>Inl\<close>):
  \<^item> \<open>get_user\<close>: building the client from the token and reading \<open>auth_user.login\<close>;
  \<^item> \<open>get_repos\<close>: the names of the account's repositories;
  \<^item> \<open>create_repo\<close>: by repository name, giving the \<open>html_url\<close> of the new repository;
  \<^item> \<open>get_contents\<close>: by path and branch, giving the \<open>sha\<close> of the file found;
  \<^item> \<open>update_file\<close>: by path and sha; \<open>create_file\<close>: by path; \<open>enable_pages\<close>;
  \<^item> \<open>time_time\<close>: \<open>int(time.time())\<close>.
\<close>

record github =
  get_user :: "ustr \<Rightarrow> exn + ustr"
  get_repos :: "exn + ustr list"
  create_repo :: "ustr \<Rightarrow> exn + ustr"
  get_contents :: "ustr \<Rightarrow> ustr \<Rightarrow> exn + ustr"
  update_file :: "ustr \<Rightarrow> ustr \<Rightarrow> exn + unit"
  create_file :: "ustr \<Rightarrow> exn + unit"
  enable_pages :: "exn + unit"
  time_time :: int

text \<open>
  What \<open>deploy_to_github\<close> does to the outside, in order, with the arguments of the
  source: \<open>CreateRepo\<close> has name, description, homepage, \<open>private\<close> and \<open>auto_init\<close>;
  \<open>UpdateFile\<close> has path, message, content, sha and branch; \<open>CreateFile\<close> has path, message,
  content and branch; \<open>EnablePages\<close> has the branch and path of the source; \<open>Sleep\<close> is
  \<open>time.sleep\<close> and \<open>Print\<close> is \<open>print\<close>.
\<close>

datatype github_call =
    GetUser ustr
  | GetRepos
  | CreateRepo ustr ustr ustr bool bool
  | Sleep nat
  | GetContents ustr ustr
  | UpdateFile ustr ustr ustr ustr ustr
  | CreateFile ustr ustr ustr ustr
  | EnablePages ustr ustr
  | Print ustr

text \<open>
  \<open>_unique_repo_name\<close>: the set of existing names is built from \<open>get_repos\<close>, outside any
  \<open>try\<close>, so what \<open>get_repos\<close> raises goes to the caller as it is. \<open>calls\<close> is the list of
  calls made so far.
\<close>

definition unique_repo_name ::
  "github \<Rightarrow> ustr \<Rightarrow> github_call list \<Rightarrow> (exn + ustr) \<times> github_call list" where
  "unique_repo_name gh prefix calls =
     (case get_repos gh of
        Inl exc \<Rightarrow> (Inl exc, calls @ [GetRepos])
      | Inr names \<Rightarrow>
          (Inr (unique_repo_name_in (set names) prefix (time_time gh)), calls @ [GetRepos]))"

text \<open>
  \<open>_push_file\<close>: the \<open>try\<close> block holds both \<open>get_contents\<close> and \<open>update_file\<close>; its handler
  takes a \<open>GithubException\<close> only, creates the file on status 404 and raises the exception
  again otherwise. Any other exception leaves the function as it is.
\<close>

definition push_file ::
  "github \<Rightarrow> ustr \<Rightarrow> ustr \<Rightarrow> ustr \<Rightarrow> ustr \<Rightarrow> github_call list \<Rightarrow>
     (exn + unit) \<times> github_call list" where
  "push_file gh file_path content commit_message branch calls =
     (let attempt =
            (case get_contents gh file_path branch of
               Inl exc \<Rightarrow> (Inl exc, calls @ [GetContents file_path branch])
             | Inr sha \<Rightarrow>
                 (update_file gh file_path sha,
                  calls @ [GetContents file_path branch,
                           UpdateFile file_path commit_message content sha branch]))
      in case attempt of
           (Inr written, calls') \<Rightarrow> (Inr written, calls')
         | (Inl exc, calls') \<Rightarrow>
             (case exc of
                GithubException status data msg \<Rightarrow>
                  if status = 404 then
                    (create_file gh file_path,
                     calls' @ [CreateFile file_path commit_message content branch])
                  else (Inl exc, calls')
              | _ \<Rightarrow> (Inl exc, calls')))"

text \<open>
  \<open>deploy_to_github\<close>. Every \<open>except\<close> clause of the source names \<open>GithubException\<close>, so
  each handler is a case on the exception: a \<open>GithubException\<close> is translated, anything
  else goes to the caller as it is.
\<close>

definition deploy_to_github ::
  "github \<Rightarrow> ustr \<Rightarrow> ustr \<Rightarrow> (exn + ustr) \<times> github_call list" where
  "deploy_to_github gh github_token html_code =
     (if github_token = [] \<or> strip github_token = [] then
        (Inl (ValueError (ascii ''GitHub token must not be empty.'') None), [])
      else if html_code = [] \<or> strip html_code = [] then
        (Inl (ValueError (ascii ''html_code must not be empty.'') None), [])
      else
        case get_user gh (strip github_token) of
          Inl exc \<Rightarrow>
            (case exc of
               GithubException status data msg \<Rightarrow>
                 if status = 401 then
                   (Inl (PermissionError
                      (ascii ''GitHub token is invalid or expired (401 Unauthorized).'')
                      (Some exc)),
                    [GetUser (strip github_token)])
                 else
                   (Inl (RuntimeError (ascii ''GitHub authentication failed: '' @ exn_str exc)
                      (Some exc)),
                    [GetUser (strip github_token)])
             | _ \<Rightarrow> (Inl exc, [GetUser (strip github_token)]))
        | Inr username \<Rightarrow>
            (case unique_repo_name gh REPO_NAME_PREFIX [GetUser (strip github_token)] of
               (Inl exc, calls1) \<Rightarrow> (Inl exc, calls1)
             | (Inr repo_name, calls1) \<Rightarrow>
                 (let calls2 = calls1 @
                        [CreateRepo repo_name DESCRIPTION (pages_url_of username repo_name)
                           False True]
                  in case create_repo gh repo_name of
                       Inl exc \<Rightarrow>
                         (case exc of
                            GithubException status data msg \<Rightarrow>
                              if status = 422 then
                                (Inl (RuntimeError
                                   (ascii ''Repository '' @ [39] @ repo_name @ [39] @
                                    ascii '' already exists or the name is invalid: '' @ data)
                                   (Some exc)), calls2)
                              else
                                (Inl (RuntimeError
                                   (ascii ''Failed to create repository: '' @ exn_str exc)
                                   (Some exc)), calls2)
                          | _ \<Rightarrow> (Inl exc, calls2))
                     | Inr html_url \<Rightarrow>
                         (case push_file gh (ascii ''index.html'') html_code COMMIT_MESSAGE
                                 PAGES_BRANCH (calls2 @ [Sleep 2]) of
                            (Inl exc, calls3) \<Rightarrow>
                              (case exc of
                                 GithubException status data msg \<Rightarrow>
                                   (Inl (RuntimeError
                                      (ascii ''Failed to push index.html: '' @ exn_str exc)
                                      (Some exc)), calls3)
                               | _ \<Rightarrow> (Inl exc, calls3))
                          | (Inr pushed, calls3) \<Rightarrow>
                              (let calls4 = calls3 @ [EnablePages PAGES_BRANCH (ascii ''/'')]
                               in case enable_pages gh of
                                    Inl exc \<Rightarrow>
                                      (case exc of
                                         GithubException status data msg \<Rightarrow>
                                           (let pages_url = pages_url_of username repo_name
                                            in (Inr pages_url,
                                                calls4 @ [Print
                                                  (ascii ''[Warning] Could not automatically enable GitHub Pages: '' @
                                                   exn_str exc @ [10] @
                                                   ascii ''Please enable it manually at: '' @
                                                   html_url @ ascii ''/settings/pages'' @ [10] @
                                                   ascii ''Expected URL once enabled: '' @
                                                   pages_url)]))
                                       | _ \<Rightarrow> (Inl exc, calls4))
                                  | Inr enabled \<Rightarrow>
                                      (let pages_url = pages_url_of username repo_name
                                       in (Inr pages_url, calls4)))))))"

text \<open>
  \<open>isinstance(exc, GithubException)\<close>, the test each \<open>except GithubException\<close> clause makes.
\<close>

fun is_github_exception :: "exn \<Rightarrow> bool" where
  "is_github_exception (GithubException status data msg) = True"
| "is_github_exception exc = False"

text \<open>\<open>exc.status\<close>, which only a \<open>GithubException\<close> has.\<close>

fun github_status :: "exn \<Rightarrow> int option" where
  "github_status (GithubException status data msg) = Some status"
| "github_status exc = None"

section \<open>Example services\<close>

text \<open>
  Concrete services on which the functions are run below: an account \<open>octocat\<close> with no
  repositories on which every operation succeeds and \<open>index.html\<close> does not exist yet,
  and the single operations that replace one of its fields in the examples.
\<close>

definition login_octocat :: "ustr \<Rightarrow> exn + ustr" where
  "login_octocat token = Inr (ascii ''octocat'')"

definition login_rejected :: "ustr \<Rightarrow> exn + ustr" where
  "login_rejected token =
     Inl (GithubException 401 (ascii ''Bad credentials'') (ascii ''401 Bad credentials''))"

definition login_forbidden :: "ustr \<Rightarrow> exn + ustr" where
  "login_forbidden token =
     Inl (GithubException 403 (ascii ''Rate limit exceeded'') (ascii ''403 Rate limit exceeded''))"

definition login_unreachable :: "ustr \<Rightarrow> exn + ustr" where
  "login_unreachable token = Inl (OtherException (ascii ''Connection refused''))"

definition repo_created :: "ustr \<Rightarrow> exn + ustr" where
  "repo_created name = Inr (ascii ''https://github.com/octocat/'' @ name)"

definition file_missing :: "ustr \<Rightarrow> ustr \<Rightarrow> exn + ustr" where
  "file_missing path branch =
     Inl (GithubException 404 (ascii ''Not Found'') (ascii ''404 Not Found''))"

definition file_found :: "ustr \<Rightarrow> ustr \<Rightarrow> exn + ustr" where
  "file_found path branch = Inr (ascii ''3b18e512dba79e4c8300dd08aeb37f8e728b8dad'')"

definition file_forbidden :: "ustr \<Rightarrow> ustr \<Rightarrow> exn + ustr" where
  "file_forbidden path branch =
     Inl (GithubException 403 (ascii ''Forbidden'') (ascii ''403 Forbidden''))"

definition file_unreachable :: "ustr \<Rightarrow> ustr \<Rightarrow> exn + ustr" where
  "file_unreachable path branch = Inl (OtherException (ascii ''Connection reset by peer''))"

definition file_updated :: "ustr \<Rightarrow> ustr \<Rightarrow> exn + unit" where
  "file_updated path sha = Inr ()"

definition file_created :: "ustr \<Rightarrow> exn + unit" where
  "file_created path = Inr ()"

definition pages_forbidden :: "exn + unit" where
  "pages_forbidden =
     Inl (GithubException 403 (ascii ''Resource not accessible by personal access token'')
        (ascii ''403 Resource not accessible by personal access token''))"

definition pages_unreachable :: "exn + unit" where
  "pages_unreachable = Inl (OtherException (ascii ''Connection reset by peer''))"

definition octocat :: github where
  "octocat =
     \<lparr>get_user = login_octocat,
      get_repos = Inr [],
      create_repo = repo_created,
      get_contents = file_missing,
      update_file = file_updated,
      create_file = file_created,
      enable_pages = Inr (),
      time_time = 1700000000\<rparr>"

text \<open>The names \<open>portfolio-builder\<close>, \<open>portfolio-builder-2\<close>, ... up to the number given.\<close>

definition names_up_to :: "int \<Rightarrow> ustr list" where
  "names_up_to n = REPO_NAME_PREFIX # map (suffixed REPO_NAME_PREFIX) [2..n]"

text \<open>
  A page in a fenced block with a language tag, and the same block wrapped once more, as
  an answer in markdown that quotes its own code block would be.
\<close>

definition fenced_page :: ustr where
  "fenced_page = fence @ ascii ''html'' @ [10] @ ascii ''<p>hi</p>'' @ [10] @ fence"


text \<open>
  A profile with two links, one of them padded and followed by CR LF, and a blank line
  between them; the field \<open>aesthetic_notes\<close> is missing.
\<close>

definition example_profile :: "ustr \<rightharpoonup> ustr" where
  "example_profile =
     [ascii ''bio'' \<mapsto> ascii ''Software engineer.'',
      ascii ''links'' \<mapsto>
        ascii ''https://github.com/x'' @ [10] @ ascii ''  '' @ [10] @
        ascii '' https://linkedin.com/in/x '' @ [13, 10],
      ascii ''color_theme'' \<mapsto> ascii ''Cyberpunk'',
      ascii ''layout_style'' \<mapsto> ascii ''Timeline'']"

text \<open>A generation service that answers every prompt with a page in a fenced block.\<close>

definition fenced_answer :: "ustr \<Rightarrow> ustr \<Rightarrow> nat \<Rightarrow> ustr \<Rightarrow> exn + response" where
  "fenced_answer model_name system_instruction max_output_tokens prompt =
     Inr \<lparr>response_text = Inr fenced_page, candidates = [ascii ''STOP'']\<rparr>"

definition answering :: gemini where
  "answering = \<lparr>generate_content = fenced_answer\<rparr>"

section \<open>Facts about strings\<close>

lemmas digits_numeral =
  digits.simps [of "numeral k" for k] digits.simps [of 0] digits.simps [of 1]
  digits.simps [of "Suc 0"]

lemma all_dropWhile: "(\<forall>x\<in>set (dropWhile P s). P x) \<longleftrightarrow> (\<forall>x\<in>set s. P x)"
  by (induction s) auto

lemma strip_eq_Nil: "strip s = [] \<longleftrightarrow> list_all isspace s"
  by (simp add: strip_def list_all_iff all_dropWhile)

lemma blank_iff: "s = [] \<or> strip s = [] \<longleftrightarrow> list_all isspace s"
  by (auto simp add: strip_eq_Nil)

section \<open>Name resolution: what is probed\<close>

text \<open>
  The loop tests the candidate it holds before it makes the next one, so of the
  candidates \<open>c\<close>, \<open>prefix-i\<^sub>1\<close>, ..., \<open>prefix-i\<^sub>n\<close> the last is never tested.
\<close>

lemma probe_find:
  "probe ex p c is = find (\<lambda>x. x \<notin> ex) (butlast (c # map (suffixed p) is))"
  by (induction "is" arbitrary: c) simp_all

lemma upto_2_99: "[2..99] = [2..98] @ [99::int]"
  using upto_rec2 [of 2 99] by simp

lemma unique_repo_name_in_find:
  "unique_repo_name_in ex p now =
     (case find (\<lambda>x. x \<notin> ex) (p # map (suffixed p) [2..98]) of
        Some c \<Rightarrow> c
      | None \<Rightarrow> suffixed p now)"
  by (simp add: unique_repo_name_in_def probe_find upto_2_99 butlast_append del: find.simps)

lemma unique_repo_name_in_all_taken:
  assumes "set (p # map (suffixed p) [2..98]) \<subseteq> ex"
  shows "unique_repo_name_in ex p now = suffixed p now"
proof -
  have "find (\<lambda>x. x \<notin> ex) (p # map (suffixed p) [2..98]) = None"
    unfolding find_None_iff using assms by blast
  then show ?thesis
    by (simp only: unique_repo_name_in_find option.case)
qed

lemma unique_repo_name_in_free:
  assumes "unique_repo_name_in ex p now \<noteq> suffixed p now"
  shows "unique_repo_name_in ex p now \<notin> ex"
proof (cases "find (\<lambda>x. x \<notin> ex) (p # map (suffixed p) [2..98])")
  case None
  with assms show ?thesis
    by (simp only: unique_repo_name_in_find option.case) simp
next
  case (Some c)
  then have "c \<notin> ex"
    by (auto simp only: find_Some_iff)
  moreover from Some have "unique_repo_name_in ex p now = c"
    by (simp only: unique_repo_name_in_find option.case)
  ultimately show ?thesis by simp
qed

lemma unique_repo_name_in_prefix_free:
  "p \<notin> ex \<Longrightarrow> unique_repo_name_in ex p now = p"
  by (simp add: unique_repo_name_in_find)

lemma fallback_name:
  "suffixed REPO_NAME_PREFIX 1700000000 = ascii ''portfolio-builder-1700000000''"
  by (simp add: suffixed_def REPO_NAME_PREFIX_def str_int_def ascii_def digits_numeral)

lemma name_99_free: "ascii ''portfolio-builder-99'' \<notin> set (names_up_to 98)"
  by (simp add: names_up_to_def suffixed_def REPO_NAME_PREFIX_def str_int_def ascii_def
      digits_numeral upto.simps)



section \<open>Name resolution: the claims\<close>




text \<open>
  C3 does not hold of the code: when \<open>portfolio-builder\<close>, \<open>portfolio-builder-2\<close>, ...,
  \<open>portfolio-builder-98\<close> are taken and \<open>portfolio-builder-99\<close> is free, name resolution
  does not return \<open>portfolio-builder-99\<close>, as probing up to and including 99 would, but the
  timestamped name: the candidate numbered 99 is made by the last iteration of the loop
  and never tested.
\<close>

theorem candidate_99_not_probed:
  "ascii ''portfolio-builder-99'' \<notin> set (names_up_to 98) \<and>
   unique_repo_name_in (set (names_up_to 98)) REPO_NAME_PREFIX 1700000000 =
     ascii ''portfolio-builder-1700000000''"
proof -
  have "set (REPO_NAME_PREFIX # map (suffixed REPO_NAME_PREFIX) [2..98]) \<subseteq> set (names_up_to 98)"
    unfolding names_up_to_def by simp
  then have "unique_repo_name_in (set (names_up_to 98)) REPO_NAME_PREFIX 1700000000 =
      ascii ''portfolio-builder-1700000000''"
    by (simp only: unique_repo_name_in_all_taken fallback_name)
  with name_99_free show ?thesis by simp
qed

section \<open>Publishing: the steps\<close>

lemmas example_services =
  octocat_def login_octocat_def login_rejected_def login_forbidden_def login_unreachable_def
  repo_created_def file_missing_def file_found_def file_forbidden_def file_unreachable_def
  file_updated_def file_created_def pages_forbidden_def pages_unreachable_def

lemmas publishing =
  deploy_to_github_def unique_repo_name_def push_file_def unique_repo_name_in_prefix_free
  pages_url_of_def REPO_NAME_PREFIX_def PAGES_BRANCH_def COMMIT_MESSAGE_def DESCRIPTION_def

lemma token_not_blank: "\<not> list_all isspace (ascii ''ghp_token'')"
  by (simp add: ascii_def isspace_def)

lemma page_not_blank: "\<not> list_all isspace (ascii ''<html></html>'')"
  by (simp add: ascii_def isspace_def)

lemma strip_token: "strip (ascii ''ghp_token'') = ascii ''ghp_token''"
  by (simp add: strip_def ascii_def isspace_def)

lemma strip_page: "strip (ascii ''<html></html>'') \<noteq> []"
  by (simp add: strip_def ascii_def isspace_def)

lemma deploy_to_github_auth:
  assumes "\<not> list_all isspace github_token" and "\<not> list_all isspace html_code"
    and "get_user gh (strip github_token) = Inl exc"
  shows "deploy_to_github gh github_token html_code =
     (case exc of
        GithubException status data msg \<Rightarrow>
          if status = 401 then
            (Inl (PermissionError
               (ascii ''GitHub token is invalid or expired (401 Unauthorized).'') (Some exc)),
             [GetUser (strip github_token)])
          else
            (Inl (RuntimeError (ascii ''GitHub authentication failed: '' @ exn_str exc)
               (Some exc)),
             [GetUser (strip github_token)])
      | _ \<Rightarrow> (Inl exc, [GetUser (strip github_token)]))"
  using assms by (simp add: deploy_to_github_def blank_iff)

lemma push_file_not_found:
  "get_contents gh file_path branch = Inl exc \<Longrightarrow> github_status exc = Some 404 \<Longrightarrow>
   push_file gh file_path content message branch calls =
     (create_file gh file_path,
      calls @ [GetContents file_path branch, CreateFile file_path message content branch])"
  by (cases exc) (simp_all add: push_file_def)

lemma push_file_found:
  "get_contents gh file_path branch = Inr sha \<Longrightarrow>
   \<exists>more. snd (push_file gh file_path content message branch calls) =
     calls @ [GetContents file_path branch, UpdateFile file_path message content sha branch]
       @ more"
  by (auto simp add: push_file_def split: sum.splits exn.splits)

lemma push_file_fetch_raises:
  assumes "get_contents gh file_path branch = Inl exc" and "github_status exc \<noteq> Some 404"
  shows "push_file gh file_path content message branch calls =
     (Inl exc, calls @ [GetContents file_path branch])"
  using assms by (cases exc) (simp_all add: push_file_def)

lemma push_file_no_pages:
  "push_file gh file_path content message branch calls = (r, calls') \<Longrightarrow>
   EnablePages b p \<in> set calls' \<Longrightarrow> EnablePages b p \<in> set calls"
  by (auto simp add: push_file_def split: sum.splits exn.splits if_splits)

lemma deploy_to_github_push:
  assumes "\<not> list_all isspace github_token" and "\<not> list_all isspace html_code"
    and "get_user gh (strip github_token) = Inr login"
    and "get_repos gh = Inr names"
    and "create_repo gh (unique_repo_name_in (set names) REPO_NAME_PREFIX (time_time gh)) =
           Inr html_url"
    and "push_file gh (ascii ''index.html'') html_code COMMIT_MESSAGE PAGES_BRANCH
           [GetUser (strip github_token), GetRepos,
            CreateRepo (unique_repo_name_in (set names) REPO_NAME_PREFIX (time_time gh))
              DESCRIPTION
              (pages_url_of login
                 (unique_repo_name_in (set names) REPO_NAME_PREFIX (time_time gh)))
              False True,
            Sleep 2] = (Inl exc, calls)"
  shows "deploy_to_github gh github_token html_code =
     (Inl (if is_github_exception exc
           then RuntimeError (ascii ''Failed to push index.html: '' @ exn_str exc) (Some exc)
           else exc), calls)"
  using assms
  by (cases exc) (simp_all add: deploy_to_github_def unique_repo_name_def blank_iff)

lemma deploy_to_github_success:
  assumes "deploy_to_github gh github_token html_code = (Inr url, calls)"
  shows "\<exists>login names. get_user gh (strip github_token) = Inr login \<and>
    get_repos gh = Inr names \<and>
    url = pages_url_of login (unique_repo_name_in (set names) REPO_NAME_PREFIX (time_time gh))"
  using assms
  by (auto simp add: deploy_to_github_def unique_repo_name_def Let_def
      split: if_splits sum.splits exn.splits prod.splits)

lemma deploy_to_github_pages:
  assumes "EnablePages branch path \<in> set (snd (deploy_to_github gh github_token html_code))"
    and "enable_pages gh = Inl exc"
  shows "if is_github_exception exc
         then \<exists>login names warning.
                get_user gh (strip github_token) = Inr login \<and> get_repos gh = Inr names \<and>
                fst (deploy_to_github gh github_token html_code) =
                  Inr (pages_url_of login
                         (unique_repo_name_in (set names) REPO_NAME_PREFIX (time_time gh))) \<and>
                last (snd (deploy_to_github gh github_token html_code)) = Print warning
         else fst (deploy_to_github gh github_token html_code) = Inl exc"
  using assms
  by (auto simp add: deploy_to_github_def unique_repo_name_def Let_def
      split: if_splits sum.splits exn.splits prod.splits dest: push_file_no_pages)

text \<open>The example account, and what happens on it when one operation fails.\<close>

lemma deploy_octocat:
  "deploy_to_github octocat (ascii ''ghp_token'') (ascii ''<html></html>'') =
     (Inr (ascii ''https://octocat.github.io/portfolio-builder/''),
      [GetUser (ascii ''ghp_token''), GetRepos,
       CreateRepo (ascii ''portfolio-builder'') DESCRIPTION
         (ascii ''https://octocat.github.io/portfolio-builder/'') False True,
       Sleep 2,
       GetContents (ascii ''index.html'') (ascii ''main''),
       CreateFile (ascii ''index.html'') COMMIT_MESSAGE (ascii ''<html></html>'') (ascii ''main''),
       EnablePages (ascii ''main'') (ascii ''/'')])"
  by (simp add: publishing example_services strip_token strip_page)
    (simp add: ascii_def)

lemma deploy_pages_forbidden:
  "deploy_to_github (octocat\<lparr>enable_pages := pages_forbidden\<rparr>) (ascii ''ghp_token'')
     (ascii ''<html></html>'') =
     (Inr (ascii ''https://octocat.github.io/portfolio-builder/''),
      [GetUser (ascii ''ghp_token''), GetRepos,
       CreateRepo (ascii ''portfolio-builder'') DESCRIPTION
         (ascii ''https://octocat.github.io/portfolio-builder/'') False True,
       Sleep 2,
       GetContents (ascii ''index.html'') (ascii ''main''),
       CreateFile (ascii ''index.html'') COMMIT_MESSAGE (ascii ''<html></html>'') (ascii ''main''),
       EnablePages (ascii ''main'') (ascii ''/''),
       Print (ascii ''[Warning] Could not automatically enable GitHub Pages: '' @
              ascii ''403 Resource not accessible by personal access token'' @ [10] @
              ascii ''Please enable it manually at: '' @
              ascii ''https://github.com/octocat/portfolio-builder/settings/pages'' @ [10] @
              ascii ''Expected URL once enabled: '' @
              ascii ''https://octocat.github.io/portfolio-builder/'')])"
  by (simp add: publishing example_services strip_token strip_page Let_def)
    (simp add: ascii_def)

section \<open>Publishing and generation: the claims\<close>

text \<open>
  C4. A blank \<open>api_key\<close> (empty, or whitespace only) makes \<open>generate_portfolio\<close> raise
  \<open>ValueError\<close>, and a blank \<open>github_token\<close> or a blank \<open>html_code\<close> makes
  \<open>deploy_to_github\<close> raise \<open>ValueError\<close>; in each case no call at all has been made to the
  outside, so no network call has been attempted.
\<close>

theorem blank_inputs_rejected:
  "(list_all isspace api_key \<longrightarrow>
      generate_portfolio sdk api_key user_data =
        (Inl (ValueError (ascii ''Gemini API key must not be empty.'') None), [])) \<and>
   (list_all isspace github_token \<longrightarrow>
      deploy_to_github gh github_token html_code =
        (Inl (ValueError (ascii ''GitHub token must not be empty.'') None), [])) \<and>
   (\<not> list_all isspace github_token \<and> list_all isspace html_code \<longrightarrow>
      deploy_to_github gh github_token html_code =
        (Inl (ValueError (ascii ''html_code must not be empty.'') None), []))"
  by (simp add: generate_portfolio_def deploy_to_github_def blank_iff)

theorem blank_inputs_rejected_witness:
  "list_all isspace [32, 9] \<and>
   generate_portfolio answering [32, 9] Map.empty =
     (Inl (ValueError (ascii ''Gemini API key must not be empty.'') None), []) \<and>
   deploy_to_github octocat [32, 9] (ascii ''<html></html>'') =
     (Inl (ValueError (ascii ''GitHub token must not be empty.'') None), []) \<and>
   \<not> list_all isspace (ascii ''ghp_token'') \<and> list_all isspace [10] \<and>
   deploy_to_github octocat (ascii ''ghp_token'') [10] =
     (Inl (ValueError (ascii ''html_code must not be empty.'') None), [])"
proof -
  have 1: "list_all isspace [32, 9]" and 2: "list_all isspace [10]"
    by (simp_all add: isspace_def)
  show ?thesis
    using 1 2 token_not_blank
      blank_inputs_rejected [of "[32, 9]" answering Map.empty "[32, 9]" octocat
        "ascii ''<html></html>''"]
      blank_inputs_rejected [of "[]" answering Map.empty "ascii ''ghp_token''" octocat "[10]"]
    by blast
qed

text \<open>
  C5 does not hold of the code. When the identity fetch fails with an exception that is
  not a \<open>GithubException\<close> (here a refused connection), \<open>deploy_to_github\<close> does not raise
  a \<open>RuntimeError\<close> that wraps the cause, as its docstring promises of every failed call;
  the exception reaches the caller as it is. The identity fetch is the only call made.
\<close>

theorem authentication_error_not_wrapped:
  "deploy_to_github (octocat\<lparr>get_user := login_unreachable\<rparr>) (ascii ''ghp_token'')
     (ascii ''<html></html>'') =
   (Inl (OtherException (ascii ''Connection refused'')), [GetUser (ascii ''ghp_token'')])"
  by (simp add: publishing example_services strip_token strip_page)
    (simp add: ascii_def)

text \<open>
  C6 does not hold of the code. When fetching the existing file fails with an exception
  that is not a \<open>GithubException\<close> (here a connection reset), no create-file call is made,
  but \<open>deploy_to_github\<close> does not raise a \<open>RuntimeError\<close>; the exception reaches the caller
  as it is.
\<close>

theorem fetch_error_not_wrapped:
  "deploy_to_github (octocat\<lparr>get_contents := file_unreachable\<rparr>) (ascii ''ghp_token'')
     (ascii ''<html></html>'') =
   (Inl (OtherException (ascii ''Connection reset by peer'')),
    [GetUser (ascii ''ghp_token''), GetRepos,
     CreateRepo (ascii ''portfolio-builder'') DESCRIPTION
       (ascii ''https://octocat.github.io/portfolio-builder/'') False True,
     Sleep 2,
     GetContents (ascii ''index.html'') (ascii ''main'')])"
  by (simp add: publishing example_services strip_token strip_page)
    (simp add: ascii_def)

text \<open>
  C7 does not hold of the code. When enabling the static-hosting feature raises an
  exception that is not a \<open>GithubException\<close> (here a connection reset), the run has reached
  the pages-enablement step, and the exception is not swallowed: it is propagated, no
  warning is printed and no URL is returned.
\<close>

theorem pages_error_propagated:
  "deploy_to_github (octocat\<lparr>enable_pages := pages_unreachable\<rparr>) (ascii ''ghp_token'')
     (ascii ''<html></html>'') =
   (Inl (OtherException (ascii ''Connection reset by peer'')),
    [GetUser (ascii ''ghp_token''), GetRepos,
     CreateRepo (ascii ''portfolio-builder'') DESCRIPTION
       (ascii ''https://octocat.github.io/portfolio-builder/'') False True,
     Sleep 2,
     GetContents (ascii ''index.html'') (ascii ''main''),
     CreateFile (ascii ''index.html'') COMMIT_MESSAGE (ascii ''<html></html>'') (ascii ''main''),
     EnablePages (ascii ''main'') (ascii ''/'')])"
  by (simp add: publishing example_services strip_token strip_page)
    (simp add: ascii_def)

text \<open>
  C8. Every successful call of \<open>deploy_to_github\<close> returns exactly
  \<open>"https://" + login + ".github.io/" + name + "/"\<close>, where \<open>login\<close> is the login the
  identity fetch gave and \<open>name\<close> is the name resolved from the account's repository names;
  this holds whether pages enablement succeeded or failed.
\<close>

theorem returned_url:
  assumes "deploy_to_github gh github_token html_code = (Inr url, calls)"
  shows "\<exists>login names.
           get_user gh (strip github_token) = Inr login \<and> get_repos gh = Inr names \<and>
           url = ascii ''https://'' @ login @ ascii ''.github.io/'' @
                 unique_repo_name_in (set names) REPO_NAME_PREFIX (time_time gh) @ ascii ''/''"
  using deploy_to_github_success [OF assms] by (simp add: pages_url_of_def)

theorem returned_url_witness:
  "fst (deploy_to_github octocat (ascii ''ghp_token'') (ascii ''<html></html>'')) =
     Inr (ascii ''https://octocat.github.io/portfolio-builder/'') \<and>
   (\<exists>login names.
      get_user octocat (strip (ascii ''ghp_token'')) = Inr login \<and>
      get_repos octocat = Inr names \<and>
      ascii ''https://octocat.github.io/portfolio-builder/'' =
        ascii ''https://'' @ login @ ascii ''.github.io/'' @
        unique_repo_name_in (set names) REPO_NAME_PREFIX (time_time octocat) @ ascii ''/'') \<and>
   fst (deploy_to_github (octocat\<lparr>enable_pages := pages_forbidden\<rparr>) (ascii ''ghp_token'')
     (ascii ''<html></html>'')) =
     Inr (ascii ''https://octocat.github.io/portfolio-builder/'') \<and>
   (\<exists>login names.
      get_user (octocat\<lparr>enable_pages := pages_forbidden\<rparr>) (strip (ascii ''ghp_token'')) =
        Inr login \<and>
      get_repos (octocat\<lparr>enable_pages := pages_forbidden\<rparr>) = Inr names \<and>
      ascii ''https://octocat.github.io/portfolio-builder/'' =
        ascii ''https://'' @ login @ ascii ''.github.io/'' @
        unique_repo_name_in (set names) REPO_NAME_PREFIX
          (time_time (octocat\<lparr>enable_pages := pages_forbidden\<rparr>)) @ ascii ''/'')"
  using returned_url [OF deploy_octocat] returned_url [OF deploy_pages_forbidden]
  by (simp only: deploy_octocat deploy_pages_forbidden fst_conv)

section \<open>Fence stripping: the pattern and the wrapper\<close>

lemma spaces_then_end_iff: "spaces_then_end r \<longleftrightarrow> list_all isspace r"
  by (induction r) (auto simp add: at_end_def isspace_def)

lemma backtick_not_space: "\<not> isspace 96"
  by (simp add: isspace_def)

lemma newline_not_letter: "\<not> is_ascii_letter 10"
  by (simp add: is_ascii_letter_def)

lemma fence_parts: "take 3 (fence @ xs) = fence" "drop 3 (fence @ xs) = xs" "length fence = 3"
  by (simp_all add: fence_def)

lemma closes_iff:
  "take 3 rest = fence \<and> spaces_then_end (drop 3 rest) \<longleftrightarrow>
   (\<exists>ws. rest = fence @ ws \<and> list_all isspace ws)"
proof
  assume a: "take 3 rest = fence \<and> spaces_then_end (drop 3 rest)"
  have "rest = take 3 rest @ drop 3 rest" by simp
  with a have "rest = fence @ drop 3 rest \<and> list_all isspace (drop 3 rest)"
    by (simp add: spaces_then_end_iff)
  then show "\<exists>ws. rest = fence @ ws \<and> list_all isspace ws" by blast
next
  assume "\<exists>ws. rest = fence @ ws \<and> list_all isspace ws"
  then obtain ws where "rest = fence @ ws" "list_all isspace ws" by blast
  then show "take 3 rest = fence \<and> spaces_then_end (drop 3 rest)"
    by (simp add: fence_parts spaces_then_end_iff)
qed

lemma body_then_close_Cons:
  "body_then_close grp (c # cs) =
     (if \<exists>ws. c # cs = fence @ ws \<and> list_all isspace ws then Some grp
      else body_then_close (grp @ [c]) cs)"
  using closes_iff [of "c # cs"] by (simp only: body_then_close.simps)

lemma not_closed_before_fence:
  "\<not> (\<exists>ws. c # cs @ fence = fence @ ws \<and> list_all isspace ws)"
proof
  assume "\<exists>ws. c # cs @ fence = fence @ ws \<and> list_all isspace ws"
  then obtain ws where eq: "c # cs @ fence = fence @ ws" and sp: "list_all isspace ws" by blast
  from eq have "length (c # cs @ fence) = length (fence @ ws)" by (rule arg_cong)
  then have n: "ws \<noteq> []" by auto
  from eq have "last (c # cs @ fence) = last (fence @ ws)" by (rule arg_cong)
  with n have "last ws = 96" by (simp add: fence_def)
  with n have "96 \<in> set ws" using last_in_set by metis
  with sp show False using backtick_not_space by (simp add: list_all_iff)
qed

lemma body_then_close_closes: "body_then_close grp (inner @ fence) = Some (grp @ inner)"
proof (induction inner arbitrary: grp)
  case Nil
  show ?case by (simp add: fence_def at_end_def)
next
  case (Cons c cs)
  have "body_then_close grp ((c # cs) @ fence) = body_then_close (grp @ [c]) (cs @ fence)"
    using not_closed_before_fence [of c cs]
    by (simp only: append_Cons body_then_close_Cons if_False)
  then show ?case by (simp add: Cons.IH)
qed

lemma body_then_close_Some:
  "body_then_close grp rest = Some r \<Longrightarrow>
   \<exists>inner ws. rest = inner @ fence @ ws \<and> list_all isspace ws \<and> r = grp @ inner"
proof (induction rest arbitrary: grp)
  case Nil
  then show ?case by simp
next
  case (Cons c cs)
  show ?case
  proof (cases "\<exists>ws. c # cs = fence @ ws \<and> list_all isspace ws")
    case True
    then obtain ws where "c # cs = [] @ fence @ ws" "list_all isspace ws" by auto
    moreover from True Cons.prems have "r = grp @ []"
      by (simp only: body_then_close_Cons if_True) simp
    ultimately show ?thesis by blast
  next
    case False
    with Cons.prems have "body_then_close (grp @ [c]) cs = Some r"
      by (simp only: body_then_close_Cons if_False)
    from Cons.IH [OF this] obtain inner ws
      where "cs = inner @ fence @ ws" "list_all isspace ws" "r = (grp @ [c]) @ inner"
      by blast
    then have "c # cs = (c # inner) @ fence @ ws \<and> list_all isspace ws \<and> r = grp @ c # inner"
      by simp
    then show ?thesis by blast
  qed
qed

lemma tag_then_body_tag:
  "list_all is_ascii_letter tag \<Longrightarrow> tag_then_body (tag @ 10 # inner @ fence) = Some inner"
proof (induction tag)
  case Nil
  show ?case using body_then_close_closes [of "[]" inner] by (simp add: newline_not_letter)
next
  case (Cons c cs)
  then show ?case by simp
qed

lemma tag_then_body_Some:
  "tag_then_body s = Some r \<Longrightarrow>
   \<exists>tag rest. s = tag @ 10 # rest \<and> list_all is_ascii_letter tag \<and>
     body_then_close [] rest = Some r"
proof (induction s)
  case Nil
  then show ?case by simp
next
  case (Cons c cs)
  show ?case
  proof (cases "is_ascii_letter c \<and> tag_then_body cs \<noteq> None")
    case True
    with Cons.prems have "tag_then_body cs = Some r" by auto
    from Cons.IH [OF this] obtain tag rest
      where "cs = tag @ 10 # rest" "list_all is_ascii_letter tag" "body_then_close [] rest = Some r"
      by blast
    with True have "c # cs = (c # tag) @ 10 # rest \<and> list_all is_ascii_letter (c # tag) \<and>
        body_then_close [] rest = Some r"
      by simp
    then show ?thesis by blast
  next
    case False
    with Cons.prems have "c = 10 \<and> body_then_close [] cs = Some r"
      by (auto split: if_splits option.splits)
    then have "c # cs = [] @ 10 # cs \<and> list_all is_ascii_letter [] \<and>
        body_then_close [] cs = Some r"
      by simp
    then show ?thesis by blast
  qed
qed

lemma re_match_fences_wrapped:
  "list_all is_ascii_letter tag \<Longrightarrow>
   re_match_fences (fence @ tag @ 10 # inner @ fence) = Some inner"
  by (simp add: re_match_fences_def fence_parts tag_then_body_tag)

lemma re_match_fences_Some:
  assumes "re_match_fences s = Some r"
  shows "\<exists>tag ws. list_all is_ascii_letter tag \<and> list_all isspace ws \<and>
    s = fence @ tag @ 10 # r @ fence @ ws"
proof -
  from assms have f: "take 3 s = fence" and t: "tag_then_body (drop 3 s) = Some r"
    by (auto simp add: re_match_fences_def split: if_splits)
  from tag_then_body_Some [OF t] obtain tag rest
    where 1: "drop 3 s = tag @ 10 # rest" "list_all is_ascii_letter tag"
      "body_then_close [] rest = Some r"
    by blast
  from body_then_close_Some [OF 1(3)] obtain inner ws
    where 2: "rest = inner @ fence @ ws" "list_all isspace ws" "r = [] @ inner"
    by blast
  have "s = take 3 s @ drop 3 s" by simp
  with f 1 2 have "s = fence @ tag @ 10 # r @ fence @ ws" by simp
  with 1 2 show ?thesis by blast
qed

lemma fenced_block_wrapped:
  assumes "list_all is_ascii_letter tag"
  shows "fenced_block (fence @ tag @ 10 # inner @ fence) = Some (tag, inner)"
proof -
  let ?s = "fence @ tag @ 10 # inner @ fence"
  have d: "drop 3 ?s = tag @ 10 # inner @ fence" and t: "take 3 ?s = fence"
    by (simp_all add: fence_def)
  have tw: "takeWhile is_ascii_letter (tag @ 10 # inner @ fence) = tag"
    using assms by (simp add: takeWhile_tail newline_not_letter list_all_iff)
  have dw: "dropWhile is_ascii_letter (tag @ 10 # inner @ fence) = 10 # inner @ fence"
    using assms by (simp add: dropWhile_append3 newline_not_letter list_all_iff)
  have l: "length fence = 3" by (simp add: fence_def)
  show ?thesis
    by (simp add: fenced_block_def d t tw dw l)
qed

lemma fenced_block_Some:
  assumes "fenced_block s = Some (tag, inner)"
  shows "list_all is_ascii_letter tag \<and> s = fence @ tag @ 10 # inner @ fence"
proof -
  let ?rest = "dropWhile is_ascii_letter (drop 3 s)"
  let ?body = "drop 1 ?rest"
  from assms have f: "take 3 s = fence" and n: "take 1 ?rest = [10]"
    and c: "drop (length ?body - 3) ?body = fence"
    and tag: "tag = takeWhile is_ascii_letter (drop 3 s)"
    and inner: "inner = take (length ?body - 3) ?body"
    by (auto simp add: fenced_block_def Let_def split: if_splits)
  have "?body = inner @ fence"
    using c inner append_take_drop_id [of "length ?body - 3" ?body] by simp
  moreover have "?rest = take 1 ?rest @ ?body" by simp
  ultimately have r: "?rest = 10 # inner @ fence" using n by simp
  have "drop 3 s = tag @ ?rest" using tag by simp
  with r have "drop 3 s = tag @ 10 # inner @ fence" by simp
  with f have "s = fence @ tag @ 10 # inner @ fence"
    using append_take_drop_id [of 3 s] by simp
  moreover have "list_all is_ascii_letter tag"
    unfolding tag list_all_iff by (auto dest: set_takeWhileD)
  ultimately show ?thesis by simp
qed

lemma strip_last: "strip t \<noteq> [] \<Longrightarrow> \<not> isspace (last (strip t))"
  unfolding strip_def using hd_dropWhile [of isspace "rev (dropWhile isspace t)"]
  by (simp add: last_rev)

lemma re_match_fences_strip:
  "re_match_fences (strip t) = map_option snd (fenced_block (strip t))"
proof (cases "fenced_block (strip t)")
  case (Some p)
  obtain tag inner where p: "p = (tag, inner)" by (cases p)
  from fenced_block_Some [of "strip t" tag inner] Some p
  have "list_all is_ascii_letter tag" and "strip t = fence @ tag @ 10 # inner @ fence" by simp_all
  then have "re_match_fences (strip t) = Some inner"
    using re_match_fences_wrapped [of tag inner] by simp
  with Some p show ?thesis by simp
next
  case None
  have "re_match_fences (strip t) = None"
  proof (rule ccontr)
    assume "re_match_fences (strip t) \<noteq> None"
    then obtain r where "re_match_fences (strip t) = Some r" by blast
    from re_match_fences_Some [OF this] obtain tag ws
      where tag: "list_all is_ascii_letter tag" and ws: "list_all isspace ws"
        and s: "strip t = fence @ tag @ 10 # r @ fence @ ws"
      by blast
    have "ws = []"
    proof (rule ccontr)
      assume n: "ws \<noteq> []"
      with s have "last (strip t) = last ws" by simp
      moreover from s have "strip t \<noteq> []" by (simp add: fence_def)
      ultimately have "\<not> isspace (last ws)" using strip_last [of t] by simp
      with n ws show False by (simp add: list_all_iff)
    qed
    with s tag have "fenced_block (strip t) = Some (tag, r)"
      using fenced_block_wrapped [of tag r] by simp
    with None show False by simp
  qed
  with None show ?thesis by simp
qed

lemma strip_padded:
  assumes "list_all isspace pre" and "list_all isspace post"
    and "\<not> isspace a" and "\<not> isspace b"
  shows "strip (pre @ a # mid @ b # post) = a # mid @ [b]"
proof -
  have 1: "dropWhile isspace (pre @ a # mid @ b # post) = a # mid @ b # post"
    using assms(1,3) by (simp add: dropWhile_append3 list_all_iff)
  have "rev (a # mid @ b # post) = rev post @ b # rev mid @ [a]" by simp
  moreover have "dropWhile isspace (rev post @ b # rev mid @ [a]) = b # rev mid @ [a]"
    using assms(2,4) by (simp add: dropWhile_append3 list_all_iff)
  ultimately show ?thesis by (simp add: strip_def 1)
qed

lemma strip_markdown_fences_eq:
  "strip_markdown_fences text =
     (case fenced_block (strip text) of None \<Rightarrow> text | Some (tag, inner) \<Rightarrow> inner)"
  by (simp add: strip_markdown_fences_def re_match_fences_strip split: option.splits)

lemma strip_markdown_fences_padded:
  assumes "list_all isspace pre" and "list_all isspace post" and "list_all is_ascii_letter tag"
  shows "strip_markdown_fences (pre @ fence @ tag @ [10] @ inner @ fence @ post) = inner"
proof -
  let ?mid = "[96, 96] @ tag @ [10] @ inner @ [96, 96]"
  have 1: "pre @ fence @ tag @ [10] @ inner @ fence @ post = pre @ 96 # ?mid @ 96 # post"
    by (simp add: fence_def)
  have 2: "96 # ?mid @ [96] = fence @ tag @ 10 # inner @ fence"
    by (simp add: fence_def)
  have "strip (pre @ fence @ tag @ [10] @ inner @ fence @ post) =
      fence @ tag @ 10 # inner @ fence"
    using strip_padded [OF assms(1,2) backtick_not_space backtick_not_space, of ?mid]
    by (simp only: 1 2)
  then show ?thesis
    using assms(3) by (simp add: strip_markdown_fences_eq fenced_block_wrapped)
qed



lemma strip_fenced_page: "strip_markdown_fences fenced_page = ascii ''<p>hi</p>'' @ [10]"
proof -
  have "list_all isspace []" and "list_all is_ascii_letter (ascii ''html'')"
    by (simp_all add: ascii_def is_ascii_letter_def)
  from strip_markdown_fences_padded [OF this(1) this(1) this(2), of "ascii ''<p>hi</p>'' @ [10]"]
  show ?thesis by (simp add: fenced_page_def)
qed




section \<open>Fence stripping: the claim\<close>




section \<open>Lines and links\<close>

lemma newline_linebreak: "islinebreak 10"
  by (simp add: islinebreak_def)

lemma splitlines_from_plain:
  "\<forall>c\<in>set x. \<not> islinebreak c \<Longrightarrow>
   splitlines_from cur x = (if cur @ x = [] then [] else [cur @ x])"
  by (induction x arbitrary: cur) auto

lemma splitlines_from_line:
  "\<forall>c\<in>set x. \<not> islinebreak c \<Longrightarrow>
   splitlines_from cur (x @ 10 # rest) = (cur @ x) # splitlines_from [] rest"
proof (induction x arbitrary: cur)
  case Nil
  show ?case by (cases rest) (simp_all add: newline_linebreak)
next
  case (Cons c cs)
  then show ?case by simp
qed

lemma splitlines_join:
  assumes "xs \<noteq> []" and "\<forall>x\<in>set xs. x \<noteq> [] \<and> (\<forall>c\<in>set x. \<not> islinebreak c)"
  shows "splitlines (join [10] xs) = xs"
  using assms
proof (induction "[10::nat]" xs rule: join.induct)
  case 1
  then show ?case by simp
next
  case (2 x)
  then show ?case by (simp add: splitlines_def splitlines_from_plain)
next
  case (3 x y ys)
  then have "splitlines (join [10] (y # ys)) = y # ys" by simp
  moreover have "splitlines_from [] (x @ 10 # join [10] (y # ys)) =
      ([] @ x) # splitlines_from [] (join [10] (y # ys))"
    using 3 by (intro splitlines_from_line) simp
  ultimately show ?case by (simp add: splitlines_def)
qed

lemma splitlines_from_no_linebreak:
  "\<forall>c\<in>set cur. \<not> islinebreak c \<Longrightarrow>
   \<forall>l\<in>set (splitlines_from cur s). \<forall>c\<in>set l. \<not> islinebreak c"
proof (induction cur s rule: splitlines_from.induct)
  case (1 cur)
  then show ?case by simp
next
  case (2 cur c cs)
  note eq = splitlines_from.simps(2) [of cur c cs]
  show ?case
  proof (cases "islinebreak c")
    case False
    then have "\<forall>c\<in>set (cur @ [c]). \<not> islinebreak c"
      using "2.prems" by simp
    from "2.IH"(4) [OF False this] False show ?thesis
      by (simp only: eq if_False)
  next
    case True
    have "\<exists>t. splitlines_from cur (c # cs) = cur # splitlines_from [] t \<and>
        (\<forall>l\<in>set (splitlines_from [] t). \<forall>c\<in>set l. \<not> islinebreak c)"
    proof (cases cs)
      case Nil
      from "2.IH"(1) [OF True Nil] have "\<forall>l\<in>set (splitlines_from [] cs). \<forall>c\<in>set l. \<not> islinebreak c"
        by simp
      moreover have "splitlines_from cur (c # cs) = cur # splitlines_from [] cs"
        by (subst eq) (simp only: Nil True if_True list.case)
      ultimately show ?thesis by blast
    next
      case (Cons d ds)
      show ?thesis
      proof (cases "c = 13 \<and> d = 10")
        case crlf: True
        from "2.IH"(2) [OF True Cons crlf]
        have "\<forall>l\<in>set (splitlines_from [] ds). \<forall>c\<in>set l. \<not> islinebreak c"
          by simp
        moreover have "splitlines_from cur (c # cs) = cur # splitlines_from [] ds"
          using True crlf by (subst eq) (simp add: Cons)
        ultimately show ?thesis by blast
      next
        case other: False
        from "2.IH"(3) [OF True Cons other]
        have "\<forall>l\<in>set (splitlines_from [] cs). \<forall>c\<in>set l. \<not> islinebreak c"
          by simp
        moreover have "splitlines_from cur (c # cs) = cur # splitlines_from [] cs"
          by (subst eq) (simp only: Cons True other if_True if_False list.case)
        ultimately show ?thesis by blast
      qed
    qed
    then obtain t where t: "splitlines_from cur (c # cs) = cur # splitlines_from [] t"
      and rest: "\<forall>l\<in>set (splitlines_from [] t). \<forall>c\<in>set l. \<not> islinebreak c"
      by blast
    show ?thesis
      using "2.prems" rest by (simp only: t set_simps ball_simps)
  qed
qed

lemma splitlines_no_linebreak:
  "l \<in> set (splitlines s) \<Longrightarrow> c \<in> set l \<Longrightarrow> \<not> islinebreak c"
  using splitlines_from_no_linebreak [of "[]" s] by (simp add: splitlines_def)

lemma set_strip: "set (strip u) \<subseteq> set u"
proof -
  have "set (strip u) \<subseteq> set (dropWhile isspace u)"
    unfolding strip_def using set_dropWhileD [of _ isspace "rev (dropWhile isspace u)"]
    by auto
  also have "\<dots> \<subseteq> set u" using set_dropWhileD [of _ isspace u] by auto
  finally show ?thesis .
qed

lemma join_eq_Nil: "join [10] xs = [] \<longleftrightarrow> xs = [] \<or> xs = [[]]"
  by (induction "[10::nat]" xs rule: join.induct) auto

section \<open>The prompt\<close>

lemma strip_between:
  assumes "xs \<noteq> []" and "\<not> isspace (hd xs)" and "\<not> isspace (last xs)"
    and "list_all isspace pre" and "list_all isspace post"
  shows "strip (pre @ xs @ post) = xs"
proof -
  from assms(1,2) have "dropWhile isspace (xs @ post) = xs @ post"
    by (cases xs) simp_all
  with assms(4) have 1: "dropWhile isspace (pre @ xs @ post) = xs @ post"
    by (simp add: list_all_iff)
  from assms(1,3) have "dropWhile isspace (rev xs) = rev xs"
    by (cases xs rule: rev_cases) simp_all
  moreover from assms(5) have "dropWhile isspace (rev post @ rev xs) = dropWhile isspace (rev xs)"
    by (intro dropWhile_append2) (simp add: list_all_iff)
  ultimately have "dropWhile isspace (rev post @ rev xs) = rev xs"
    by simp
  with 1 show ?thesis by (simp add: strip_def)
qed

lemma bullet_line:
  assumes "l \<in> set (splitlines s)"
  shows "ascii ''  '' @ [8226] @ ascii '' '' @ strip l \<noteq> [] \<and>
    (\<forall>c\<in>set (ascii ''  '' @ [8226] @ ascii '' '' @ strip l). \<not> islinebreak c)"
proof -
  have "\<forall>c\<in>set (strip l). \<not> islinebreak c"
    using assms set_strip [of l] splitlines_no_linebreak [of l s] by blast
  then show ?thesis
    by (simp add: ascii_def islinebreak_def)
qed

lemma links_formatted_eq:
  "links_formatted user_data =
     (let urls = filter (\<lambda>url. strip url \<noteq> [])
                   (splitlines (dict_get user_data (ascii ''links'') []));
          bullets = map (\<lambda>url. ascii ''  '' @ [8226] @ ascii '' '' @ strip url) urls
      in if urls = [] then ascii ''  (none provided)'' else join [10] bullets)"
proof -
  let ?urls = "filter (\<lambda>url. strip url \<noteq> [])
      (splitlines (dict_get user_data (ascii ''links'') []))"
  let ?bullets = "map (\<lambda>url. ascii ''  '' @ [8226] @ ascii '' '' @ strip url) ?urls"
  have "\<forall>x\<in>set ?bullets. x \<noteq> []"
    by (simp add: ascii_def)
  then have "?bullets \<noteq> [[]]"
    by (metis list.set_intros(1))
  then have "join [10] ?bullets = [] \<longleftrightarrow> ?urls = []"
    by (simp add: join_eq_Nil)
  then show ?thesis
    by (simp add: links_formatted_def Let_def)
qed

lemma links_formatted_lines:
  assumes "filter (\<lambda>url. strip url \<noteq> [])
      (splitlines (dict_get user_data (ascii ''links'') [])) \<noteq> []"
  shows "splitlines (links_formatted user_data) =
     map (\<lambda>url. ascii ''  '' @ [8226] @ ascii '' '' @ strip url)
       (filter (\<lambda>url. strip url \<noteq> [])
          (splitlines (dict_get user_data (ascii ''links'') [])))"
proof -
  let ?urls = "filter (\<lambda>url. strip url \<noteq> [])
      (splitlines (dict_get user_data (ascii ''links'') []))"
  let ?bullets = "map (\<lambda>url. ascii ''  '' @ [8226] @ ascii '' '' @ strip url) ?urls"
  have "\<forall>x\<in>set ?bullets. x \<noteq> [] \<and> (\<forall>c\<in>set x. \<not> islinebreak c)"
  proof
    fix x assume "x \<in> set ?bullets"
    then obtain l where "l \<in> set (splitlines (dict_get user_data (ascii ''links'') []))"
      and "x = ascii ''  '' @ [8226] @ ascii '' '' @ strip l"
      by auto
    then show "x \<noteq> [] \<and> (\<forall>c\<in>set x. \<not> islinebreak c)"
      using bullet_line by blast
  qed
  moreover from assms have "?bullets \<noteq> []" by simp
  ultimately have "splitlines (join [10] ?bullets) = ?bullets"
    by (intro splitlines_join)
  with assms show ?thesis
    by (simp add: links_formatted_eq Let_def)
qed

lemma links_formatted_missing:
  "user_data (ascii ''links'') = None \<Longrightarrow>
   links_formatted user_data = ascii ''  (none provided)''"
  by (simp add: links_formatted_eq dict_get_def splitlines_def)

lemma user_prompt_eq:
  "user_prompt user_data = concat
     [ascii ''Create a complete, single-file HTML portfolio website for the following person.'',
      [10], [10],
      ascii ''=== BIO ==='', [10],
      strip (dict_get user_data (ascii ''bio'') []), [10], [10],
      ascii ''=== LINKS ==='', [10],
      links_formatted user_data, [10], [10],
      ascii ''=== DESIGN PREFERENCES ==='', [10],
      ascii ''Color Theme  : '',
      dict_get user_data (ascii ''color_theme'') (ascii ''Dark & Minimal''), [10],
      ascii ''Layout Style : '',
      dict_get user_data (ascii ''layout_style'') (ascii ''Single Page''), [10],
      ascii ''Extra Notes  : '',
      (let notes = strip (dict_get user_data (ascii ''aesthetic_notes'') [])
       in if notes = [] then ascii ''(none)'' else notes), [10], [10],
      ascii ''=== REQUIREMENTS ==='', [10],
      ascii ''1. Use Tailwind CSS (CDN) for utility classes.'', [10],
      ascii ''2. Add tasteful CSS animations / transitions (scroll-reveal, hover effects).'', [10],
      ascii ''3. Include a hero section, about section, links/contact section.'', [10],
      ascii ''4. All images should be replaced with elegant SVG illustrations or CSS art '',
      [8212], [10],
      ascii ''   do not embed base64 blobs.'', [10],
      ascii ''5. Output ONLY the HTML '', [8212], ascii '' nothing else.'']"
  (is "_ = ?body")
proof -
  have first: "ascii ''Create a complete, single-file HTML portfolio website for the following person.'' =
      67 # ascii ''reate a complete, single-file HTML portfolio website for the following person.''"
    by (simp add: ascii_def)
  have last: "ascii '' nothing else.'' = ascii '' nothing else'' @ [46]"
    by (simp add: ascii_def)
  have "?body \<noteq> []" and "hd ?body = 67" and "last ?body = 46"
    by (simp_all add: first last)
  then have "strip ([10] @ ?body @ [10]) = ?body"
    by (intro strip_between) (simp_all add: isspace_def)
  moreover have "user_prompt user_data = strip ([10] @ ?body @ [10])"
    by (simp add: user_prompt_def)
  ultimately show ?thesis by simp
qed

lemma dict_get_defaults:
  "dict_get (profile_defaults ++ d) (ascii ''bio'') [] = dict_get d (ascii ''bio'') []"
  "dict_get (profile_defaults ++ d) (ascii ''links'') [] = dict_get d (ascii ''links'') []"
  "dict_get (profile_defaults ++ d) (ascii ''aesthetic_notes'') [] =
     dict_get d (ascii ''aesthetic_notes'') []"
  "dict_get (profile_defaults ++ d) (ascii ''color_theme'') (ascii ''Dark & Minimal'') =
     dict_get d (ascii ''color_theme'') (ascii ''Dark & Minimal'')"
  "dict_get (profile_defaults ++ d) (ascii ''layout_style'') (ascii ''Single Page'') =
     dict_get d (ascii ''layout_style'') (ascii ''Single Page'')"
  by (simp_all add: dict_get_def map_add_def profile_defaults_def ascii_def split: option.splits)

lemma user_prompt_defaults: "user_prompt (profile_defaults ++ d) = user_prompt d"
  by (simp add: user_prompt_def links_formatted_def dict_get_defaults)

lemma generate_portfolio_defaults:
  "generate_portfolio sdk api_key (profile_defaults ++ d) = generate_portfolio sdk api_key d"
  by (simp add: generate_portfolio_def user_prompt_defaults)

lemma generate_portfolio_calls:
  "\<not> list_all isspace api_key \<Longrightarrow>
   snd (generate_portfolio sdk api_key user_data) =
     [Configure (strip api_key),
      GenerateContent GEMINI_MODEL system_prompt MAX_OUTPUT_TOKENS (user_prompt user_data)]"
  by (simp add: generate_portfolio_def blank_iff Let_def split: sum.splits)

lemma user_prompt_empty:
  "user_prompt Map.empty = concat
     [ascii ''Create a complete, single-file HTML portfolio website for the following person.'',
      [10], [10],
      ascii ''=== BIO ==='', [10], [10], [10],
      ascii ''=== LINKS ==='', [10],
      ascii ''  (none provided)'', [10], [10],
      ascii ''=== DESIGN PREFERENCES ==='', [10],
      ascii ''Color Theme  : Dark & Minimal'', [10],
      ascii ''Layout Style : Single Page'', [10],
      ascii ''Extra Notes  : (none)'', [10], [10],
      ascii ''=== REQUIREMENTS ==='', [10],
      ascii ''1. Use Tailwind CSS (CDN) for utility classes.'', [10],
      ascii ''2. Add tasteful CSS animations / transitions (scroll-reveal, hover effects).'', [10],
      ascii ''3. Include a hero section, about section, links/contact section.'', [10],
      ascii ''4. All images should be replaced with elegant SVG illustrations or CSS art '',
      [8212], [10],
      ascii ''   do not embed base64 blobs.'', [10],
      ascii ''5. Output ONLY the HTML '', [8212], ascii '' nothing else.'']"
proof -
  have "ascii ''Color Theme  : Dark & Minimal'' = ascii ''Color Theme  : '' @ ascii ''Dark & Minimal''"
    and "ascii ''Layout Style : Single Page'' = ascii ''Layout Style : '' @ ascii ''Single Page''"
    and "ascii ''Extra Notes  : (none)'' = ascii ''Extra Notes  : '' @ ascii ''(none)''"
    by (simp_all add: ascii_def)
  then show ?thesis
    by (simp add: user_prompt_eq dict_get_def links_formatted_missing strip_def)
qed

lemma key_not_blank: "\<not> list_all isspace (ascii ''AIza-key'')"
  by (simp add: ascii_def isspace_def)

lemma strip_key: "strip (ascii ''AIza-key'') = ascii ''AIza-key''"
  by (simp add: strip_def ascii_def isspace_def)

lemma generate_empty_profile:
  "generate_portfolio answering (ascii ''AIza-key'') Map.empty =
     (Inr (ascii ''<p>hi</p>'' @ [10]),
      [Configure (ascii ''AIza-key''),
       GenerateContent GEMINI_MODEL system_prompt MAX_OUTPUT_TOKENS (user_prompt Map.empty)])"
proof -
  have "strip (ascii ''<p>hi</p>'' @ [10]) \<noteq> []" and "ascii ''AIza-key'' \<noteq> []"
    by (simp_all add: strip_def ascii_def isspace_def)
  then show ?thesis
    by (simp add: generate_portfolio_def answering_def fenced_answer_def strip_key
        strip_fenced_page Let_def)
qed

lemma links_example:
  "filter (\<lambda>url. strip url \<noteq> []) (splitlines (dict_get example_profile (ascii ''links'') [])) =
     [ascii ''https://github.com/x'', ascii '' https://linkedin.com/in/x '']"
proof -
  have "dict_get example_profile (ascii ''links'') [] =
      ascii ''https://github.com/x'' @ [10] @ ascii ''  '' @ [10] @
      ascii '' https://linkedin.com/in/x '' @ [13, 10]"
    by (simp add: example_profile_def dict_get_def ascii_def)
  moreover have "splitlines (ascii ''https://github.com/x'' @ [10] @ ascii ''  '' @ [10] @
      ascii '' https://linkedin.com/in/x '' @ [13, 10]) =
      [ascii ''https://github.com/x'', ascii ''  '', ascii '' https://linkedin.com/in/x '']"
    by (simp add: splitlines_def ascii_def islinebreak_def)
  moreover have "strip (ascii ''https://github.com/x'') \<noteq> []" "strip (ascii ''  '') = []"
    "strip (ascii '' https://linkedin.com/in/x '') \<noteq> []"
    by (simp_all add: strip_def ascii_def isspace_def)
  ultimately show ?thesis by simp
qed

lemma links_example_stripped:
  "strip (ascii ''https://github.com/x'') = ascii ''https://github.com/x''"
  "strip (ascii '' https://linkedin.com/in/x '') = ascii ''https://linkedin.com/in/x''"
  by (simp_all add: strip_def ascii_def isspace_def)


section \<open>Prompt construction: the claims\<close>

text \<open>
  C9. In the prompt \<open>generate_portfolio\<close> builds, the links field appears as one bullet
  line for every line of the field that is not blank, each URL trimmed of the whitespace
  around it, the bullet lines joined by newlines; splitting the section into lines gives
  back exactly these bullet lines, one per non-blank input line. When the field has no
  non-blank line, or is absent, the section is the marker \<open>(none provided)\<close>. The section
  stands in the prompt under the heading \<open>=== LINKS ===\<close>, after the bio.
\<close>

theorem links_section:
  "(let urls = filter (\<lambda>url. strip url \<noteq> [])
                 (splitlines (dict_get user_data (ascii ''links'') []));
        bullets = map (\<lambda>url. ascii ''  '' @ [8226] @ ascii '' '' @ strip url) urls
    in (urls = [] \<longrightarrow> links_formatted user_data = ascii ''  (none provided)'') \<and>
       (urls \<noteq> [] \<longrightarrow>
          links_formatted user_data = join [10] bullets \<and>
          splitlines (links_formatted user_data) = bullets)) \<and>
   (user_data (ascii ''links'') = None \<longrightarrow>
      links_formatted user_data = ascii ''  (none provided)'') \<and>
   (\<exists>rest. user_prompt user_data =
      ascii ''Create a complete, single-file HTML portfolio website for the following person.'' @
      [10, 10] @ ascii ''=== BIO ==='' @ [10] @
      strip (dict_get user_data (ascii ''bio'') []) @ [10, 10] @
      ascii ''=== LINKS ==='' @ [10] @ links_formatted user_data @ [10, 10] @
      ascii ''=== DESIGN PREFERENCES ==='' @ rest)"
proof (intro conjI)
  show "let urls = filter (\<lambda>url. strip url \<noteq> [])
                 (splitlines (dict_get user_data (ascii ''links'') []));
        bullets = map (\<lambda>url. ascii ''  '' @ [8226] @ ascii '' '' @ strip url) urls
    in (urls = [] \<longrightarrow> links_formatted user_data = ascii ''  (none provided)'') \<and>
       (urls \<noteq> [] \<longrightarrow>
          links_formatted user_data = join [10] bullets \<and>
          splitlines (links_formatted user_data) = bullets)"
    using links_formatted_lines [of user_data] links_formatted_eq [of user_data]
    by (simp add: Let_def)
  show "user_data (ascii ''links'') = None \<longrightarrow>
      links_formatted user_data = ascii ''  (none provided)''"
    by (simp add: links_formatted_missing)
  show "\<exists>rest. user_prompt user_data =
      ascii ''Create a complete, single-file HTML portfolio website for the following person.'' @
      [10, 10] @ ascii ''=== BIO ==='' @ [10] @
      strip (dict_get user_data (ascii ''bio'') []) @ [10, 10] @
      ascii ''=== LINKS ==='' @ [10] @ links_formatted user_data @ [10, 10] @
      ascii ''=== DESIGN PREFERENCES ==='' @ rest"
    by (simp add: user_prompt_eq)
qed

theorem links_section_witness:
  "links_formatted Map.empty = ascii ''  (none provided)'' \<and>
   links_formatted example_profile =
     join [10]
       [ascii ''  '' @ [8226] @ ascii '' '' @ ascii ''https://github.com/x'',
        ascii ''  '' @ [8226] @ ascii '' '' @ ascii ''https://linkedin.com/in/x''] \<and>
   splitlines (links_formatted example_profile) =
     [ascii ''  '' @ [8226] @ ascii '' '' @ ascii ''https://github.com/x'',
      ascii ''  '' @ [8226] @ ascii '' '' @ ascii ''https://linkedin.com/in/x'']"
proof -
  have none: "(Map.empty :: ustr \<rightharpoonup> ustr) (ascii ''links'') = None"
    by simp
  have no_urls: "filter (\<lambda>url. strip url \<noteq> [])
      (splitlines (dict_get Map.empty (ascii ''links'') [])) = []"
    by (simp add: dict_get_def splitlines_def)
  have 1: "links_formatted Map.empty = ascii ''  (none provided)''"
    using none no_urls links_section [of Map.empty] by (simp add: Let_def)
  let ?bullet = "\<lambda>url. ascii ''  '' @ [8226] @ ascii '' '' @ strip url"
  let ?urls = "[ascii ''https://github.com/x'', ascii '' https://linkedin.com/in/x '']"
  have "?urls \<noteq> [] \<longrightarrow>
      links_formatted example_profile = join [10] (map ?bullet ?urls) \<and>
      splitlines (links_formatted example_profile) = map ?bullet ?urls"
    using links_section [of example_profile] unfolding Let_def links_example by blast
  then have "links_formatted example_profile = join [10] (map ?bullet ?urls) \<and>
      splitlines (links_formatted example_profile) = map ?bullet ?urls"
    by blast
  then have 2: "links_formatted example_profile =
      join [10]
        [ascii ''  '' @ [8226] @ ascii '' '' @ ascii ''https://github.com/x'',
         ascii ''  '' @ [8226] @ ascii '' '' @ ascii ''https://linkedin.com/in/x''] \<and>
    splitlines (links_formatted example_profile) =
      [ascii ''  '' @ [8226] @ ascii '' '' @ ascii ''https://github.com/x'',
       ascii ''  '' @ [8226] @ ascii '' '' @ ascii ''https://linkedin.com/in/x'']"
    unfolding list.map links_example_stripped .
  from 1 2 show ?thesis by blast
qed

text \<open>
  C10. \<open>generate_portfolio\<close> never fails because a profile field is missing. Each of the
  five fields is read with a default, so the prompt built from any dictionary, and with it
  the whole run, is the one built from the dictionary with the missing fields filled in:
  empty for \<open>bio\<close>, \<open>links\<close> and \<open>aesthetic_notes\<close>, \<open>Dark & Minimal\<close> for \<open>color_theme\<close> and
  \<open>Single Page\<close> for \<open>layout_style\<close>. With a key that is not blank the generation call is
  made on that prompt whatever the dictionary is. On the empty dictionary the prompt is
  the fixed text below, with an empty bio, the marker \<open>(none provided)\<close> for the links, the
  two default preferences and \<open>(none)\<close> for the notes.
\<close>

theorem profile_defaults_applied:
  "user_prompt user_data = user_prompt (profile_defaults ++ user_data) \<and>
   generate_portfolio sdk api_key user_data =
     generate_portfolio sdk api_key (profile_defaults ++ user_data) \<and>
   (\<not> list_all isspace api_key \<longrightarrow>
      snd (generate_portfolio sdk api_key user_data) =
        [Configure (strip api_key),
         GenerateContent GEMINI_MODEL system_prompt MAX_OUTPUT_TOKENS
           (user_prompt user_data)]) \<and>
   user_prompt Map.empty = concat
     [ascii ''Create a complete, single-file HTML portfolio website for the following person.'',
      [10], [10],
      ascii ''=== BIO ==='', [10], [10], [10],
      ascii ''=== LINKS ==='', [10],
      ascii ''  (none provided)'', [10], [10],
      ascii ''=== DESIGN PREFERENCES ==='', [10],
      ascii ''Color Theme  : Dark & Minimal'', [10],
      ascii ''Layout Style : Single Page'', [10],
      ascii ''Extra Notes  : (none)'', [10], [10],
      ascii ''=== REQUIREMENTS ==='', [10],
      ascii ''1. Use Tailwind CSS (CDN) for utility classes.'', [10],
      ascii ''2. Add tasteful CSS animations / transitions (scroll-reveal, hover effects).'', [10],
      ascii ''3. Include a hero section, about section, links/contact section.'', [10],
      ascii ''4. All images should be replaced with elegant SVG illustrations or CSS art '',
      [8212], [10],
      ascii ''   do not embed base64 blobs.'', [10],
      ascii ''5. Output ONLY the HTML '', [8212], ascii '' nothing else.'']"
proof (intro conjI impI)
  show "user_prompt user_data = user_prompt (profile_defaults ++ user_data)"
    by (rule user_prompt_defaults [symmetric])
  show "generate_portfolio sdk api_key user_data =
      generate_portfolio sdk api_key (profile_defaults ++ user_data)"
    by (rule generate_portfolio_defaults [symmetric])
  assume "\<not> list_all isspace api_key"
  then show "snd (generate_portfolio sdk api_key user_data) =
      [Configure (strip api_key),
       GenerateContent GEMINI_MODEL system_prompt MAX_OUTPUT_TOKENS (user_prompt user_data)]"
    by (rule generate_portfolio_calls)
qed (rule user_prompt_empty)

theorem profile_defaults_applied_witness:
  "\<not> list_all isspace (ascii ''AIza-key'') \<and>
   snd (generate_portfolio answering (ascii ''AIza-key'') Map.empty) =
     [Configure (strip (ascii ''AIza-key'')),
      GenerateContent GEMINI_MODEL system_prompt MAX_OUTPUT_TOKENS (user_prompt Map.empty)] \<and>
   fst (generate_portfolio answering (ascii ''AIza-key'') Map.empty) =
     Inr (ascii ''<p>hi</p>'' @ [10])"
proof -
  have "snd (generate_portfolio answering (ascii ''AIza-key'') Map.empty) =
      [Configure (strip (ascii ''AIza-key'')),
       GenerateContent GEMINI_MODEL system_prompt MAX_OUTPUT_TOKENS (user_prompt Map.empty)]"
    using key_not_blank
      profile_defaults_applied [of Map.empty answering "ascii ''AIza-key''"]
    by blast
  moreover have "fst (generate_portfolio answering (ascii ''AIza-key'') Map.empty) =
      Inr (ascii ''<p>hi</p>'' @ [10])"
    by (simp only: generate_empty_profile fst_conv)
  ultimately show ?thesis
    using key_not_blank by blast
qed

end
